theory Spec2Isabelle
  imports Complex_Main
begin

section \<open>JavaScript values used by the routes\<close>

text \<open>
  The sale-code workflow lives in five route handlers:
  \<^item> \<^verbatim>\<open>src/app/api/scan/create/route.ts\<close>, lines 1-139: \<^verbatim>\<open>POST /api/scan/create\<close>
    (customer self-checkout), with \<^verbatim>\<open>genCode\<close>;
  \<^item> the same file, lines 139-203: \<^verbatim>\<open>GET /api/scan/lookup\<close>;
  \<^item> \<^verbatim>\<open>src/app/api/scan/confirm/route.ts\<close>: \<^verbatim>\<open>POST /api/scan/confirm\<close>;
  \<^item> \<^verbatim>\<open>src/app/api/pos/confirm-scan/route.ts\<close>, lines 1-29: \<^verbatim>\<open>POST /api/pos/confirm-scan\<close>;
  \<^item> the same file, lines 29-144: \<^verbatim>\<open>POST /api/pos/create\<close> (manual staff sale).

  A JavaScript number is modelled as an exact rational or one of the three non-finite
  values; the rounding of IEEE doubles is not modelled. A string is a list of 8-bit
  characters.
\<close>

datatype jsnum = Num rat | NaN | PInf | NInf

text \<open>\<^verbatim>\<open>x || 0\<close> on a number: the falsy numbers are 0 and NaN.\<close>

fun or0 :: "jsnum \<Rightarrow> jsnum" where
  "or0 (Num q) = Num q"
| "or0 NaN = Num 0"
| "or0 PInf = PInf"
| "or0 NInf = NInf"

text \<open>\<^verbatim>\<open>Number.isFinite(x)\<close> and \<^verbatim>\<open>x > 0\<close>.\<close>

fun isFinite :: "jsnum \<Rightarrow> bool" where
  "isFinite (Num q) = True"
| "isFinite NaN = False"
| "isFinite PInf = False"
| "isFinite NInf = False"

fun gt0 :: "jsnum \<Rightarrow> bool" where
  "gt0 (Num q) = (0 < q)"
| "gt0 NaN = False"
| "gt0 PInf = True"
| "gt0 NInf = False"

text \<open>The product \<^verbatim>\<open>a * b\<close> and the sum \<^verbatim>\<open>a + b\<close> of two numbers.\<close>

fun js_sign :: "jsnum \<Rightarrow> int" where
  "js_sign (Num q) = (if q < 0 then -1 else if q = 0 then 0 else 1)"
| "js_sign NaN = 0"
| "js_sign PInf = 1"
| "js_sign NInf = -1"

fun js_mul :: "jsnum \<Rightarrow> jsnum \<Rightarrow> jsnum" where
  "js_mul (Num a) (Num b) = Num (a * b)"
| "js_mul NaN b = NaN"
| "js_mul a NaN = NaN"
| "js_mul a b =
     (if js_sign a * js_sign b = 0 then NaN
      else if js_sign a * js_sign b = 1 then PInf else NInf)"

fun js_add :: "jsnum \<Rightarrow> jsnum \<Rightarrow> jsnum" where
  "js_add (Num a) (Num b) = Num (a + b)"
| "js_add NaN b = NaN"
| "js_add a NaN = NaN"
| "js_add PInf NInf = NaN"
| "js_add NInf PInf = NaN"
| "js_add PInf b = PInf"
| "js_add NInf b = NInf"
| "js_add a PInf = PInf"
| "js_add a NInf = NInf"

subsection \<open>Strings\<close>

text \<open>\<^verbatim>\<open>s.trim()\<close>: the ASCII white space is dropped at both ends.\<close>

definition is_ws :: "char \<Rightarrow> bool" where
  "is_ws c = (c \<in> set [CHR '' '', CHR 0x09, CHR 0x0A, CHR 0x0B, CHR 0x0C, CHR 0x0D])"

definition trim :: "string \<Rightarrow> string" where
  "trim s = rev (dropWhile is_ws (rev (dropWhile is_ws s)))"

text \<open>\<^verbatim>\<open>s.toUpperCase()\<close> and \<^verbatim>\<open>s.toLowerCase()\<close>, on the ASCII letters.\<close>

definition lower_letters :: string where
  "lower_letters = ''abcdefghijklmnopqrstuvwxyz''"

definition upper_letters :: string where
  "upper_letters = ''ABCDEFGHIJKLMNOPQRSTUVWXYZ''"

definition upper_char :: "char \<Rightarrow> char" where
  "upper_char c = (case map_of (zip lower_letters upper_letters) c of Some u \<Rightarrow> u | None \<Rightarrow> c)"

definition lower_char :: "char \<Rightarrow> char" where
  "lower_char c = (case map_of (zip upper_letters lower_letters) c of Some l \<Rightarrow> l | None \<Rightarrow> c)"

definition toUpperCase :: "string \<Rightarrow> string" where
  "toUpperCase s = map upper_char s"

definition toLowerCase :: "string \<Rightarrow> string" where
  "toLowerCase s = map lower_char s"

text \<open>\<^verbatim>\<open>s.includes(sub)\<close>: \<open>sub\<close> occurs in \<open>s\<close> as a contiguous run.\<close>

fun str_includes :: "string \<Rightarrow> string \<Rightarrow> bool" where
  "str_includes [] sub = (sub = [])"
| "str_includes (c # cs) sub = (take (length sub) (c # cs) = sub \<or> str_includes cs sub)"

text \<open>
  \<^verbatim>\<open>String(n)\<close> for an integer \<open>n\<close> (below \<open>10^21\<close> in absolute value, where JavaScript
  switches to exponent notation): the decimal digits, most significant first.
\<close>

definition digit_char :: "nat \<Rightarrow> char" where
  "digit_char d = ''0123456789'' ! d"

fun digits :: "nat \<Rightarrow> string" where
  "digits n = (if n < 10 then [digit_char n] else digits (n div 10) @ [digit_char (n mod 10)])"

declare digits.simps [simp del]

definition String_int :: "int \<Rightarrow> string" where
  "String_int i = (if i < 0 then CHR ''-'' # digits (nat (- i)) else digits (nat i))"

section \<open>The code generator\<close>

text \<open>
  \<^verbatim>\<open>function genCode() { return String(Math.floor(100000 + Math.random() * 900000)); }\<close>

  The same function stands in both create routes. \<^verbatim>\<open>Math.random()\<close> is the only source
  of the result, so the model takes the draw \<open>r\<close> as its argument; JavaScript promises
  \<open>0 \<le> r < 1\<close>.
\<close>

definition genCode :: "rat \<Rightarrow> string" where
  "genCode r = String_int \<lfloor>100000 + r * 900000\<rfloor>"




section \<open>The storage layer and the environment of a request\<close>

text \<open>
  The tables the routes read and write. A row of \<open>sales\<close> has the columns the routes
  name; \<open>sid\<close> is the column \<^verbatim>\<open>id\<close> and \<open>created_at\<close> is filled by the storage layer.
  The enum columns are kept as strings, since the routes compare them as strings
  (\<^verbatim>\<open>String(sale.status).toUpperCase() === "PAID"\<close>) and write both \<^verbatim>\<open>"CONFIRMED"\<close> and
  \<^verbatim>\<open>"confirmed"\<close>. The generated \<^verbatim>\<open>id\<close> of a \<open>sale_items\<close> row and the joined product
  names of the lookup are display data and left out.

  \<^verbatim>\<open>type SaleItemInput = { product_id: string; qty: number }\<close>; a row of \<open>sale_items\<close>
  extends it by \<open>sale_id\<close>, \<open>unit_price_at_time\<close> and \<open>line_total\<close>.
\<close>

record sale =
  sid :: nat
  public_code :: string
  source :: string
  status :: string
  payment_method :: string
  payment_status :: string
  momo_reference :: "string option"
  staff_id :: "string option"
  sale_note :: string
  created_at :: nat

record SaleItemInput =
  product_id :: string
  qty :: jsnum

record sale_item = SaleItemInput +
  sale_id :: nat
  unit_price_at_time :: jsnum
  line_total :: jsnum

record product =
  pid :: string
  price :: "jsnum option"

record shop_setting =
  setting_id :: nat
  enable_customer_scan :: "bool option"

text \<open>
  The state: the four tables, and the number of \<^verbatim>\<open>Math.random()\<close> calls made so far
  (the position in the stream of draws).
\<close>

record world =
  sales :: "sale list"
  sale_items :: "sale_item list"
  products :: "product list"
  shop_settings :: "shop_setting list"
  rng_calls :: nat

text \<open>
  What a request cannot decide itself: the draws of \<^verbatim>\<open>Math.random()\<close>, the clock of the
  storage layer, and for each storage call whether the storage layer answers with an
  error (the \<^verbatim>\<open>error.message\<close>, \<open>None\<close> when the call goes through). The error of the
  sale insertion is given per attempt of the retry loop.
\<close>

record env =
  math_random :: "nat \<Rightarrow> rat"
  db_now :: nat
  select_error :: "string option"
  update_error :: "string option"
  settings_error :: "string option"
  price_error :: "string option"
  sale_insert_error :: "nat \<Rightarrow> string option"
  items_insert_error :: "string option"

text \<open>
  Modelled from the spec: the storage layer (a hosted relational database and its client
  library) is not among the sources, so its calls follow the specification's "single row
  matched by \<open>public_code\<close>", "system-assigned" \<^verbatim>\<open>id\<close>, "creation timestamp" and "per-row
  atomic update/insert semantics". Every call may instead answer with an error and then
  changes nothing.

  \<^verbatim>\<open>.maybeSingle()\<close>: no row is \<^verbatim>\<open>null\<close>, one row is that row, several rows are an error.
\<close>

definition maybeSingle :: "string option \<Rightarrow> 'a list \<Rightarrow> string + 'a option" where
  "maybeSingle err rows =
     (case err of
        Some m \<Rightarrow> Inl m
      | None \<Rightarrow>
          (case rows of
             [] \<Rightarrow> Inr None
           | [r] \<Rightarrow> Inr (Some r)
           | _ \<Rightarrow> Inl ''JSON object requested, multiple (or no) rows returned''))"

text \<open>
  Modelled from the spec: the insertion of a sale,
  \<^verbatim>\<open>.from("sales").insert(row).select("id, public_code").single()\<close>. The storage layer
  either rejects the row or appends it with a fresh \<^verbatim>\<open>id\<close> and its clock as
  \<open>created_at\<close>, and returns it. \<open>row\<close> gives the columns the route sets, as a function
  of the two columns the storage layer fills.
\<close>

definition next_sid :: "sale list \<Rightarrow> nat" where
  "next_sid ss = Suc (fold max (map sid ss) 0)"

definition insert_sale ::
  "string option \<Rightarrow> nat \<Rightarrow> (nat \<Rightarrow> nat \<Rightarrow> sale) \<Rightarrow> world \<Rightarrow> string + (sale \<times> world)" where
  "insert_sale err t row w =
     (case err of
        Some m \<Rightarrow> Inl m
      | None \<Rightarrow> (let s = row (next_sid (sales w)) t in Inr (s, w\<lparr>sales := sales w @ [s]\<rparr>)))"

text \<open>
  Modelled from the spec: the batch insertion of the items,
  \<^verbatim>\<open>.from("sale_items").insert(payload)\<close>: all rows or none.
\<close>

definition insert_items :: "string option \<Rightarrow> sale_item list \<Rightarrow> world \<Rightarrow> string + world" where
  "insert_items err payload w =
     (case err of
        Some m \<Rightarrow> Inl m
      | None \<Rightarrow> Inr (w\<lparr>sale_items := sale_items w @ payload\<rparr>))"

text \<open>
  Modelled from the spec: \<^verbatim>\<open>.from("sales").update(values).eq(column, v)\<close> changes the
  named columns of every matching row and nothing else.
\<close>

definition update_sales :: "(sale \<Rightarrow> bool) \<Rightarrow> (sale \<Rightarrow> sale) \<Rightarrow> world \<Rightarrow> world" where
  "update_sales match vals w = w\<lparr>sales := map (\<lambda>s. if match s then vals s else s) (sales w)\<rparr>"

section \<open>Requests and responses\<close>

text \<open>
  A response is the HTTP status and the JSON body of \<^verbatim>\<open>NextResponse.json\<close> (status 200
  when the route gives none).
\<close>

datatype body =
    Error string
  | Ok
  | OkCode string
  | OkSale nat string
  | OkLookup (lk_code: string) (lk_payment_status: string) (lk_status: string) (paid: bool)
      (lk_sale: sale) (lk_items: "sale_item list")

datatype response = Response (http_status: nat) (json: body)

text \<open>
  The JSON body of a create request, read as the routes' type annotations say: a field
  may be absent (\<open>None\<close>), \<open>product_id\<close> is a string and \<open>qty\<close> a number.
\<close>

record raw_item =
  raw_product_id :: "string option"
  raw_qty :: "jsnum option"

record create_body =
  body_payment_method :: "string option"
  body_momo_reference :: "string option"
  body_items :: "raw_item list"

text \<open>\<^verbatim>\<open>String(x || d)\<close> for an optional string \<open>x\<close>.\<close>

definition str_or :: "string \<Rightarrow> string option \<Rightarrow> string" where
  "str_or d x = (case x of None \<Rightarrow> d | Some s \<Rightarrow> if s = [] then d else s)"

section \<open>Creating a sale\<close>

text \<open>
  Lines 31-37 of \<^verbatim>\<open>scan/create\<close> and 60-66 of \<^verbatim>\<open>pos/create\<close>:
  \<^verbatim>\<open>
  const items = itemsRaw
    .map((it) => ({ product_id: String(it.product_id || "").trim(), qty: Number(it.qty || 0) }))
    .filter((x) => x.product_id && Number.isFinite(x.qty) && x.qty > 0);
  \<close>
\<close>

definition parse_items :: "raw_item list \<Rightarrow> SaleItemInput list" where
  "parse_items itemsRaw =
     filter (\<lambda>x. product_id x \<noteq> [] \<and> isFinite (qty x) \<and> gt0 (qty x))
       (map (\<lambda>it. \<lparr>product_id = trim (str_or [] (raw_product_id it)),
                    qty = (case raw_qty it of None \<Rightarrow> Num 0 | Some q \<Rightarrow> or0 q)\<rparr>) itemsRaw)"

text \<open>
  \<^verbatim>\<open>for (const r of priceRows ?? []) priceMap.set(r.id, Number(r.price || 0));\<close>
\<close>

definition price_map :: "product list \<Rightarrow> (string \<rightharpoonup> jsnum)" where
  "price_map priceRows =
     fold (\<lambda>r m. m(pid r \<mapsto> (case price r of None \<Rightarrow> Num 0 | Some p \<Rightarrow> or0 p))) priceRows Map.empty"

text \<open>
  \<^verbatim>\<open>.from("products").select("id, price").in("id", ids)\<close> with
  \<^verbatim>\<open>ids = Array.from(new Set(items.map((x) => x.product_id)))\<close>.
\<close>

definition select_prices :: "SaleItemInput list \<Rightarrow> world \<Rightarrow> product list" where
  "select_prices items w =
     (let ids = remdups (map product_id items) in filter (\<lambda>p. pid p \<in> set ids) (products w))"

text \<open>
  The payload of the \<open>sale_items\<close> insertion (lines 100-114 of \<^verbatim>\<open>scan/create\<close>, 117-129 of
  \<^verbatim>\<open>pos/create\<close>). The \<^verbatim>\<open>throw new Error(`Missing price for product ${it.product_id}`)\<close>
  of the first item without a price is the result \<open>Inl\<close> of that product id.
\<close>

fun items_payload :: "(string \<rightharpoonup> jsnum) \<Rightarrow> nat \<Rightarrow> SaleItemInput list \<Rightarrow> string + sale_item list" where
  "items_payload priceMap sale [] = Inr []"
| "items_payload priceMap sale (it # its) =
     (case priceMap (product_id it) of
        None \<Rightarrow> Inl (product_id it)
      | Some unit \<Rightarrow>
          (case items_payload priceMap sale its of
             Inl p \<Rightarrow> Inl p
           | Inr rows \<Rightarrow>
               Inr (\<lparr>product_id = product_id it, qty = qty it, sale_id = sale,
                      unit_price_at_time = unit, line_total = js_mul unit (qty it)\<rparr> # rows)))"

text \<open>
  \<^verbatim>\<open>msg.includes("duplicate") || msg.includes("unique") || msg.includes("public_code")\<close>
  on the lower-cased message of the insertion error.
\<close>

definition isDup :: "string \<Rightarrow> bool" where
  "isDup message =
     (let msg = toLowerCase message
      in str_includes msg ''duplicate'' \<or> str_includes msg ''unique'' \<or> str_includes msg ''public_code'')"

text \<open>
  The retry loop, lines 72-131 of \<^verbatim>\<open>scan/create\<close> and 90-139 of \<^verbatim>\<open>pos/create\<close>; the two
  loops differ in the row they insert only, which is the parameter \<open>row\<close> here.
  \<^verbatim>\<open>
  for (let attempt = 0; attempt < 6; attempt++) {
    const code = genCode();
    const { data: sale, error: saleErr } = await supabase.from("sales").insert({...}).select(...).single();
    if (saleErr) {
      lastErr = saleErr;
      if (isDup) continue;
      return NextResponse.json({ error: saleErr.message }, { status: 400 });
    }
    const payload = items.map(...);            // may throw: caught below, status 500
    const { error: itemsErr } = await supabase.from("sale_items").insert(payload);
    if (itemsErr) return NextResponse.json({ error: `sale_items insert failed: ...` }, { status: 400 });
    return NextResponse.json({ ok: true, code: sale.public_code });
  }
  return NextResponse.json({ error: lastErr?.message || "Failed after retries." }, { status: 400 });
  \<close>
\<close>

function sale_loop ::
  "env \<Rightarrow> (string \<Rightarrow> nat \<Rightarrow> nat \<Rightarrow> sale) \<Rightarrow> SaleItemInput list \<Rightarrow> (string \<rightharpoonup> jsnum) \<Rightarrow>
   nat \<Rightarrow> string option \<Rightarrow> world \<Rightarrow> response \<times> world" where
  "sale_loop e row items priceMap attempt lastErr w =
     (if attempt < 6 then
        (let code = genCode (math_random e (rng_calls w));
             w1 = w\<lparr>rng_calls := Suc (rng_calls w)\<rparr>
         in case insert_sale (sale_insert_error e attempt) (db_now e) (row code) w1 of
              Inl message \<Rightarrow>
                if isDup message
                then sale_loop e row items priceMap (Suc attempt) (Some message) w1
                else (Response 400 (Error message), w1)
            | Inr (sale, w2) \<Rightarrow>
                (case items_payload priceMap (sid sale) items of
                   Inl p \<Rightarrow> (Response 500 (Error (''Missing price for product '' @ p)), w2)
                 | Inr payload \<Rightarrow>
                     (case insert_items (items_insert_error e) payload w2 of
                        Inl message \<Rightarrow>
                          (Response 400 (Error (''sale_items insert failed: '' @ message)), w2)
                      | Inr w3 \<Rightarrow> (Response 200 (OkCode (public_code sale)), w3))))
      else (Response 400 (Error (str_or ''Failed after retries.'' lastErr)), w))"
  by pat_completeness auto
termination
  by (relation "measure (\<lambda>(e, row, items, priceMap, attempt, lastErr, w). 6 - attempt)") auto

declare sale_loop.simps [simp del]

text \<open>The rows the two routes insert.\<close>

definition scan_row :: "string \<Rightarrow> string option \<Rightarrow> string \<Rightarrow> nat \<Rightarrow> nat \<Rightarrow> sale" where
  "scan_row pm mr code i t =
     \<lparr>sid = i, public_code = code, source = ''CUSTOMER_SCAN'', status = ''PENDING'',
      payment_method = pm, payment_status = ''PENDING'', momo_reference = mr,
      staff_id = None, sale_note = ''Customer scan'', created_at = t\<rparr>"

definition pos_row :: "string \<Rightarrow> string \<Rightarrow> string option \<Rightarrow> string \<Rightarrow> nat \<Rightarrow> nat \<Rightarrow> sale" where
  "pos_row uid pm mr code i t =
     \<lparr>sid = i, public_code = code, source = ''STAFF_MANUAL'', status = ''PAID'',
      payment_method = pm, payment_status = ''CONFIRMED'', momo_reference = mr,
      staff_id = Some uid, sale_note = ''Manual POS'', created_at = t\<rparr>"

text \<open>
  \<^verbatim>\<open>payment_method = String(body.payment_method || "CASH").toUpperCase()\<close> and
  \<^verbatim>\<open>momo_reference = payment_method === "MOMO" && String(body.momo_reference || "").trim()
       ? String(body.momo_reference).trim() : null\<close>.
\<close>

definition body_method :: "create_body \<Rightarrow> string" where
  "body_method b = toUpperCase (str_or ''CASH'' (body_payment_method b))"

definition body_reference :: "create_body \<Rightarrow> string option" where
  "body_reference b =
     (if body_method b = ''MOMO'' \<and> trim (str_or [] (body_momo_reference b)) \<noteq> []
      then Some (trim (str_or [] (body_momo_reference b))) else None)"

text \<open>\<^verbatim>\<open>!settings?.enable_customer_scan\<close> is the negation of this.\<close>

definition scan_enabled :: "shop_setting option \<Rightarrow> bool" where
  "scan_enabled settings =
     (case settings of None \<Rightarrow> False | Some s \<Rightarrow> enable_customer_scan s = Some True)"

text \<open>\<^verbatim>\<open>POST /api/scan/create\<close>, lines 20-138 of \<^verbatim>\<open>src/app/api/scan/create/route.ts\<close>.\<close>

definition scan_create_POST :: "env \<Rightarrow> create_body \<Rightarrow> world \<Rightarrow> response \<times> world" where
  "scan_create_POST e b w =
     (let items = parse_items (body_items b) in
      if items = [] then (Response 400 (Error ''Invalid items.''), w)
      else
        (case maybeSingle (settings_error e) (filter (\<lambda>s. setting_id s = 1) (shop_settings w)) of
           Inl message \<Rightarrow> (Response 400 (Error message), w)
         | Inr settings \<Rightarrow>
             if \<not> scan_enabled settings
             then (Response 403 (Error ''Scan checkout is turned off.''), w)
             else
               (case price_error e of
                  Some message \<Rightarrow> (Response 400 (Error (''price lookup failed: '' @ message)), w)
                | None \<Rightarrow>
                    sale_loop e (scan_row (body_method b) (body_reference b)) items
                      (price_map (select_prices items w)) 0 None w)))"

text \<open>
  \<^verbatim>\<open>POST /api/pos/create\<close>, lines 45-144 of \<^verbatim>\<open>src/app/api/pos/confirm-scan/route.ts\<close>
  (the second route of that file). \<open>uid\<close> is \<^verbatim>\<open>auth.user?.id\<close>.
\<close>

definition pos_create_POST :: "env \<Rightarrow> string option \<Rightarrow> create_body \<Rightarrow> world \<Rightarrow> response \<times> world" where
  "pos_create_POST e uid b w =
     (if str_or [] uid = [] then (Response 401 (Error ''Unauthorized''), w)
      else
        (let items = parse_items (body_items b) in
         if items = [] then (Response 400 (Error ''Invalid items.''), w)
         else
           (case price_error e of
              Some message \<Rightarrow> (Response 400 (Error message), w)
            | None \<Rightarrow>
                sale_loop e (pos_row (str_or [] uid) (body_method b) (body_reference b)) items
                  (price_map (select_prices items w)) 0 None w)))"

section \<open>Confirming and looking up a sale\<close>

text \<open>
  \<^verbatim>\<open>POST /api/scan/confirm\<close>, \<^verbatim>\<open>src/app/api/scan/confirm/route.ts\<close>. \<open>code\<close> is
  \<^verbatim>\<open>body.code\<close>; the sale is loaded by \<open>public_code\<close> and changed by its \<^verbatim>\<open>id\<close>.
\<close>

definition scan_confirm_POST :: "env \<Rightarrow> string option \<Rightarrow> string option \<Rightarrow> world \<Rightarrow> response \<times> world" where
  "scan_confirm_POST e uid body_code w =
     (if str_or [] uid = [] then (Response 401 (Error ''Unauthorized''), w)
      else
        (let code = trim (str_or [] body_code) in
         if code = [] then (Response 400 (Error ''Missing code.''), w)
         else
           (case maybeSingle (select_error e) (filter (\<lambda>s. public_code s = code) (sales w)) of
              Inl message \<Rightarrow> (Response 400 (Error message), w)
            | Inr None \<Rightarrow> (Response 404 (Error ''Code not found.''), w)
            | Inr (Some sale) \<Rightarrow>
                if source sale \<noteq> ''CUSTOMER_SCAN''
                then (Response 400 (Error ''Not a scan checkout code.''), w)
                else if toUpperCase (status sale) = ''PAID''
                        \<or> toUpperCase (payment_status sale) = ''CONFIRMED''
                then (Response 409 (Error ''This code has already been used.''), w)
                else
                  (case update_error e of
                     Some message \<Rightarrow> (Response 400 (Error message), w)
                   | None \<Rightarrow>
                       (Response 200 Ok,
                        update_sales (\<lambda>s. sid s = sid sale)
                          (\<lambda>s. s\<lparr>status := ''PAID'', payment_status := ''CONFIRMED'',
                                  staff_id := Some (str_or [] uid)\<rparr>) w)))))"

text \<open>
  \<^verbatim>\<open>POST /api/pos/confirm-scan\<close>, lines 4-29 of \<^verbatim>\<open>src/app/api/pos/confirm-scan/route.ts\<close>:
  one \<^verbatim>\<open>update(...).eq("public_code", code).select("id, public_code").maybeSingle()\<close>,
  with no look at the row before. \<open>authed\<close> is \<^verbatim>\<open>auth.user\<close>, its value the user's id.
  When several rows carry the code the storage layer rejects the call and changes nothing.
\<close>

definition pos_confirm_scan_POST :: "env \<Rightarrow> string option \<Rightarrow> string option \<Rightarrow> world \<Rightarrow> response \<times> world" where
  "pos_confirm_scan_POST e authed body_code w =
     (case authed of
        None \<Rightarrow> (Response 401 (Error ''Unauthorized''), w)
      | Some user_id \<Rightarrow>
          (let code = trim (str_or [] body_code) in
           if code = [] then (Response 400 (Error ''Code required.''), w)
           else
             (case maybeSingle (update_error e) (filter (\<lambda>s. public_code s = code) (sales w)) of
                Inl message \<Rightarrow> (Response 400 (Error message), w)
              | Inr None \<Rightarrow> (Response 404 (Error ''Invalid code.''), w)
              | Inr (Some sale) \<Rightarrow>
                  (Response 200 (OkSale (sid sale) (public_code sale)),
                   update_sales (\<lambda>s. public_code s = code)
                     (\<lambda>s. s\<lparr>status := ''PAID'', payment_status := ''confirmed'',
                             staff_id := Some user_id\<rparr>) w))))"

text \<open>
  \<^verbatim>\<open>GET /api/scan/lookup\<close>, lines 142-203 of \<^verbatim>\<open>src/app/api/scan/create/route.ts\<close> (the
  second route of that file). \<open>param\<close> is \<^verbatim>\<open>searchParams.get("code")\<close>. The route returns
  no state in the source; the model returns the state it was given, so that the absence
  of writes is a statement about it.
\<close>

definition scan_lookup_GET :: "env \<Rightarrow> string option \<Rightarrow> world \<Rightarrow> response \<times> world" where
  "scan_lookup_GET e param w =
     (let code = trim (str_or [] param) in
      if code = [] \<or> length code < 4 then (Response 400 (Error ''Invalid code.''), w)
      else
        (case maybeSingle (select_error e) (filter (\<lambda>s. public_code s = code) (sales w)) of
           Inl message \<Rightarrow> (Response 400 (Error message), w)
         | Inr None \<Rightarrow> (Response 404 (Error ''Code not found.''), w)
         | Inr (Some sale) \<Rightarrow>
             if source sale \<noteq> ''CUSTOMER_SCAN''
             then (Response 400 (Error ''This code is not a scan checkout.''), w)
             else
               (let ps = toUpperCase (str_or [] (Some (payment_status sale)));
                    st = toUpperCase (str_or [] (Some (status sale)))
                in (Response 200
                      (OkLookup (public_code sale) (payment_status sale) (status sale)
                         (ps = ''CONFIRMED'' \<or> st = ''PAID'') sale
                         (filter (\<lambda>it. sale_id it = sid sale) (sale_items w))), w))))"

text \<open>
  The total the POS screen shows for a looked-up sale, \<^verbatim>\<open>src/app/pos/page.tsx\<close> lines
  70-73:
  \<^verbatim>\<open>(scanSale.sale_items || []).reduce((s, it) => s + Number(it.line_total || 0), 0)\<close>.
\<close>

definition scanTotal :: "sale_item list \<Rightarrow> jsnum" where
  "scanTotal its = foldl (\<lambda>s it. js_add s (or0 (line_total it))) (Num 0) its"

section \<open>Concrete requests and states\<close>

text \<open>
  A shop with two products and the scan channel switched on, environments in which the
  storage layer answers every call (\<open>calm\<close>), rejects every sale insertion as a duplicate
  (\<open>jammed\<close>) or fails every sale insertion for another reason (\<open>broken\<close>), and request
  bodies. The theorems below are instantiated at them.
\<close>

definition shop :: world where
  "shop = \<lparr>sales = [], sale_items = [],
     products = [\<lparr>pid = ''p1'', price = Some (Num 10)\<rparr>, \<lparr>pid = ''p2'', price = Some (Num (5/2))\<rparr>],
     shop_settings = [\<lparr>setting_id = 1, enable_customer_scan = Some True\<rparr>], rng_calls = 0\<rparr>"

definition calm :: env where
  "calm = \<lparr>math_random = (\<lambda>_. 1/2), db_now = 1000, select_error = None, update_error = None,
     settings_error = None, price_error = None, sale_insert_error = (\<lambda>_. None), items_insert_error = None\<rparr>"

definition jammed :: env where
  "jammed = calm\<lparr>sale_insert_error := (\<lambda>_. Some ''duplicate key value violates unique constraint'')\<rparr>"

definition broken :: env where
  "broken = calm\<lparr>sale_insert_error := (\<lambda>_. Some ''connection reset'')\<rparr>"

definition cart :: create_body where
  "cart = \<lparr>body_payment_method = Some ''cash'', body_momo_reference = None,
     body_items = [\<lparr>raw_product_id = Some ''p1'', raw_qty = Some (Num 2)\<rparr>]\<rparr>"

definition mixed_cart :: create_body where
  "mixed_cart = \<lparr>body_payment_method = Some ''cash'', body_momo_reference = None,
     body_items = [\<lparr>raw_product_id = Some ''p1'', raw_qty = Some (Num 2)\<rparr>,
                   \<lparr>raw_product_id = Some ''p2'', raw_qty = Some (Num 0)\<rparr>]\<rparr>"

definition ghost_cart :: create_body where
  "ghost_cart = \<lparr>body_payment_method = Some ''cash'', body_momo_reference = None,
     body_items = [\<lparr>raw_product_id = Some ''p9'', raw_qty = Some (Num 1)\<rparr>]\<rparr>"

definition void_cart :: create_body where
  "void_cart = \<lparr>body_payment_method = Some ''cash'', body_momo_reference = None,
     body_items = [\<lparr>raw_product_id = Some ''p1'', raw_qty = Some NaN\<rparr>,
                   \<lparr>raw_product_id = Some ''  '', raw_qty = Some (Num 3)\<rparr>]\<rparr>"

text \<open>
  \<open>sold\<close> is the shop after the customer's cart went through \<^verbatim>\<open>POST /api/scan/create\<close>,
  \<open>till\<close> the shop after the same cart went through \<^verbatim>\<open>POST /api/pos/create\<close>, and
  \<open>closed_shop\<close> the shop with the scan channel switched off.
\<close>

definition sold :: world where
  "sold = shop\<lparr>sales := [scan_row ''CASH'' None ''550000'' 1 1000],
     sale_items := [\<lparr>product_id = ''p1'', qty = Num 2, sale_id = 1,
                      unit_price_at_time = Num 10, line_total = Num 20\<rparr>],
     rng_calls := 1\<rparr>"

definition closed_shop :: world where
  "closed_shop = shop\<lparr>shop_settings := [\<lparr>setting_id = 1, enable_customer_scan = Some False\<rparr>]\<rparr>"

definition till :: world where
  "till = shop\<lparr>sales := [pos_row ''u1'' ''CASH'' None ''550000'' 1 1000],
     sale_items := [\<lparr>product_id = ''p1'', qty = Num 2, sale_id = 1,
                      unit_price_at_time = Num 10, line_total = Num 20\<rparr>],
     rng_calls := 1\<rparr>"

section \<open>Evaluation and auxiliary facts\<close>

lemmas string_evals = str_or_def trim_def is_ws_def toUpperCase_def upper_char_def
  toLowerCase_def lower_char_def lower_letters_def upper_letters_def

lemmas create_evals = Let_def shop_def calm_def jammed_def broken_def cart_def mixed_cart_def ghost_cart_def
  void_cart_def scan_create_POST_def pos_create_POST_def parse_items_def string_evals
  maybeSingle_def scan_enabled_def select_prices_def price_map_def sale_loop.simps insert_sale_def next_sid_def
  insert_items_def scan_row_def pos_row_def body_method_def body_reference_def
  genCode_def String_int_def digits.simps digit_char_def isDup_def

lemmas confirm_evals = Let_def shop_def calm_def sold_def till_def scan_confirm_POST_def
  pos_confirm_scan_POST_def scan_lookup_GET_def string_evals maybeSingle_def update_sales_def
  scan_row_def pos_row_def

subsection \<open>Decimal strings\<close>














subsection \<open>The retry loop\<close>

lemma str_includes_Nil: "sub \<noteq> [] \<Longrightarrow> \<not> str_includes [] sub"
  by simp


lemma sale_loop_exhausted:
  "6 \<le> attempt \<Longrightarrow> sale_loop e row items pm attempt lastErr w =
     (Response 400 (Error (str_or ''Failed after retries.'' lastErr)), w)"
  by (subst sale_loop.simps) simp

lemma sale_loop_dup:
  "attempt < 6 \<Longrightarrow> sale_insert_error e attempt = Some m \<Longrightarrow> isDup m \<Longrightarrow>
   sale_loop e row items pm attempt lastErr w =
     sale_loop e row items pm (Suc attempt) (Some m) (w\<lparr>rng_calls := Suc (rng_calls w)\<rparr>)"
  by (subst sale_loop.simps) (simp add: insert_sale_def)

lemma sale_loop_abort:
  "attempt < 6 \<Longrightarrow> sale_insert_error e attempt = Some m \<Longrightarrow> \<not> isDup m \<Longrightarrow>
   sale_loop e row items pm attempt lastErr w =
     (Response 400 (Error m), w\<lparr>rng_calls := Suc (rng_calls w)\<rparr>)"
  by (subst sale_loop.simps) (simp add: insert_sale_def)

lemma sale_loop_inserted:
  "attempt < 6 \<Longrightarrow> sale_insert_error e attempt = None \<Longrightarrow>
   sale_loop e row items pm attempt lastErr w =
     (let s = row (genCode (math_random e (rng_calls w))) (next_sid (sales w)) (db_now e);
          w2 = w\<lparr>rng_calls := Suc (rng_calls w), sales := sales w @ [s]\<rparr>
      in case items_payload pm (sid s) items of
           Inl p \<Rightarrow> (Response 500 (Error (''Missing price for product '' @ p)), w2)
         | Inr payload \<Rightarrow>
             (case items_insert_error e of
                Some message \<Rightarrow> (Response 400 (Error (''sale_items insert failed: '' @ message)), w2)
              | None \<Rightarrow> (Response 200 (OkCode (public_code s)), w2\<lparr>sale_items := sale_items w @ payload\<rparr>)))"
  by (subst sale_loop.simps) (simp add: insert_sale_def insert_items_def Let_def split: sum.splits option.splits)

lemma sale_loop_dups:
  "attempt + k \<le> 6 \<Longrightarrow>
   \<forall>j. attempt \<le> j \<and> j < attempt + k \<longrightarrow> (\<exists>m. sale_insert_error e j = Some m \<and> isDup m) \<Longrightarrow>
   sale_loop e row items pm attempt lastErr w =
     sale_loop e row items pm (attempt + k)
       (if k = 0 then lastErr else sale_insert_error e (attempt + k - 1))
       (w\<lparr>rng_calls := rng_calls w + k\<rparr>)"
proof (induction k arbitrary: attempt lastErr w)
  case 0
  then show ?case by simp
next
  case (Suc k)
  have "attempt \<le> attempt \<and> attempt < attempt + Suc k" by simp
  with Suc.prems(2) obtain m where m: "sale_insert_error e attempt = Some m" "isDup m"
    by blast
  have lt: "attempt < 6" using Suc.prems(1) by simp
  have step: "sale_loop e row items pm attempt lastErr w =
      sale_loop e row items pm (Suc attempt) (Some m) (w\<lparr>rng_calls := Suc (rng_calls w)\<rparr>)"
    by (rule sale_loop_dup [OF lt m])
  have rest: "sale_loop e row items pm (Suc attempt) (Some m) (w\<lparr>rng_calls := Suc (rng_calls w)\<rparr>) =
      sale_loop e row items pm (Suc attempt + k)
       (if k = 0 then Some m else sale_insert_error e (Suc attempt + k - 1))
       (w\<lparr>rng_calls := Suc (rng_calls w)\<rparr>\<lparr>rng_calls := rng_calls (w\<lparr>rng_calls := Suc (rng_calls w)\<rparr>) + k\<rparr>)"
    using Suc.prems by (intro Suc.IH) auto
  show ?case
    unfolding step rest using m by (cases k) simp_all
qed



subsection \<open>Prices, payloads and totals\<close>


lemma price_map_snoc:
  "price_map (rows @ [r]) = (price_map rows)(pid r \<mapsto> (case price r of None \<Rightarrow> Num 0 | Some p \<Rightarrow> or0 p))"
  by (simp add: price_map_def)

lemma price_map_Nil: "price_map [] = Map.empty"
  by (simp add: price_map_def)

lemma price_map_None: "(price_map rows k = None) = (k \<notin> pid ` set rows)"
  by (induction rows rule: rev_induct) (auto simp: price_map_snoc price_map_Nil)


lemma select_prices_pid:
  "it \<in> set items \<Longrightarrow>
   (product_id it \<in> pid ` set (select_prices items w)) = (product_id it \<in> pid ` set (products w))"
  by (force simp: select_prices_def)


lemma lookup_missing:
  "it \<in> set items \<Longrightarrow>
   (price_map (select_prices items w) (product_id it) = None) = (product_id it \<notin> pid ` set (products w))"
  by (simp add: price_map_None select_prices_pid)


lemma items_payload_Inl:
  "items_payload pm s items = Inl p \<Longrightarrow> pm p = None \<and> p \<in> product_id ` set items"
  by (induction items) (auto split: option.splits sum.splits)

lemma items_payload_present:
  "items_payload pm s items = Inr rows \<Longrightarrow> it \<in> set items \<Longrightarrow> pm (product_id it) \<noteq> None"
  by (induction items arbitrary: rows) (auto split: option.splits sum.splits)

lemma items_payload_missing:
  assumes "it \<in> set items" "pm (product_id it) = None"
  shows "\<exists>p. items_payload pm s items = Inl p \<and> pm p = None \<and> p \<in> product_id ` set items"
proof (cases "items_payload pm s items")
  case (Inl p)
  then show ?thesis using items_payload_Inl [OF Inl] by simp
next
  case (Inr rows)
  from items_payload_present [OF Inr assms(1)] assms(2) show ?thesis by simp
qed









lemma scan_create_reaches_loop:
  assumes "parse_items (body_items b) \<noteq> []" "settings_error e = None"
    "filter (\<lambda>s. setting_id s = 1) (shop_settings w) = [st]" "enable_customer_scan st = Some True"
    "price_error e = None"
  shows "scan_create_POST e b w =
    sale_loop e (scan_row (body_method b) (body_reference b)) (parse_items (body_items b))
      (price_map (select_prices (parse_items (body_items b)) w)) 0 None w"
  using assms by (simp add: scan_create_POST_def maybeSingle_def scan_enabled_def Let_def)

lemma pos_create_reaches_loop:
  assumes "str_or [] uid \<noteq> []" "parse_items (body_items b) \<noteq> []" "price_error e = None"
  shows "pos_create_POST e uid b w =
    sale_loop e (pos_row (str_or [] uid) (body_method b) (body_reference b)) (parse_items (body_items b))
      (price_map (select_prices (parse_items (body_items b)) w)) 0 None w"
  using assms by (simp add: pos_create_POST_def Let_def)

lemma create_reaches_loop:
  assumes "(res = scan_create_POST e b w \<and> row = scan_row (body_method b) (body_reference b) \<and>
       parse_items (body_items b) \<noteq> [] \<and> settings_error e = None \<and>
       filter (\<lambda>s. setting_id s = 1) (shop_settings w) = [st] \<and> enable_customer_scan st = Some True \<and>
       price_error e = None)
    \<or> (res = pos_create_POST e uid b w \<and> row = pos_row (str_or [] uid) (body_method b) (body_reference b) \<and>
       str_or [] uid \<noteq> [] \<and> parse_items (body_items b) \<noteq> [] \<and> price_error e = None)"
  shows "res = sale_loop e row (parse_items (body_items b))
      (price_map (select_prices (parse_items (body_items b)) w)) 0 None w"
  using assms scan_create_reaches_loop [of b e w st] pos_create_reaches_loop [of uid b e w]
  by blast



section \<open>The code generator: claim C9\<close>



section \<open>The retry bound: claim C2\<close>



section \<open>Item validation: claim C3\<close>






section \<open>A missing product: claim C4\<close>

lemma sale_loop_dups_then_missing:
  assumes "k < 6" "\<forall>j<k. \<exists>m. sale_insert_error e j = Some m \<and> isDup m"
    "sale_insert_error e k = None" "it \<in> set items" "pm (product_id it) = None"
  shows "\<exists>p. p \<in> product_id ` set items \<and> pm p = None \<and>
     sale_loop e row items pm 0 None w =
       (Response 500 (Error (''Missing price for product '' @ p)),
        w\<lparr>rng_calls := rng_calls w + Suc k,
          sales := sales w @ [row (genCode (math_random e (rng_calls w + k))) (next_sid (sales w)) (db_now e)]\<rparr>)"
proof -
  let ?s = "row (genCode (math_random e (rng_calls w + k))) (next_sid (sales w)) (db_now e)"
  have run: "sale_loop e row items pm 0 None w =
      sale_loop e row items pm (0 + k) (if k = 0 then None else sale_insert_error e (0 + k - 1))
        (w\<lparr>rng_calls := rng_calls w + k\<rparr>)"
    using assms(1,2) by (intro sale_loop_dups) auto
  from items_payload_missing [of it items pm "sid ?s"] assms(4,5)
  obtain p where p: "items_payload pm (sid ?s) items = Inl p" "pm p = None" "p \<in> product_id ` set items"
    by blast
  have "sale_loop e row items pm 0 None w =
       (Response 500 (Error (''Missing price for product '' @ p)),
        w\<lparr>rng_calls := rng_calls w + Suc k, sales := sales w @ [?s]\<rparr>)"
    unfolding run using assms(1,3) p(1)
    by (simp add: sale_loop_inserted Let_def)
  with p show ?thesis by blast
qed

text \<open>
  Claim C4, as amended. The prices are looked up before the loop, but a missing price is
  detected while the payload is built, after the sale row has been inserted. Take a
  create request that reaches the loop and has a valid item whose product id is in no
  row of \<open>products\<close>, and let the sale insertion succeed at attempt \<open>k\<close> after \<open>k\<close>
  duplicate failures. Then the route answers 500 \<^verbatim>\<open>Missing price for product <id>\<close> for such
  an id, writes no \<open>sale_items\<close> row (no item is skipped, no price is made up), and leaves
  the sale row of attempt \<open>k\<close> in \<open>sales\<close>.
\<close>

theorem missing_product_leaves_sale:
  assumes "(res = scan_create_POST e b w \<and> row = scan_row (body_method b) (body_reference b) \<and>
       parse_items (body_items b) \<noteq> [] \<and> settings_error e = None \<and>
       filter (\<lambda>s. setting_id s = 1) (shop_settings w) = [st] \<and> enable_customer_scan st = Some True \<and>
       price_error e = None)
    \<or> (res = pos_create_POST e uid b w \<and> row = pos_row (str_or [] uid) (body_method b) (body_reference b) \<and>
       str_or [] uid \<noteq> [] \<and> parse_items (body_items b) \<noteq> [] \<and> price_error e = None)"
    and "it \<in> set (parse_items (body_items b))" and "product_id it \<notin> pid ` set (products w)"
    and "k < 6" and "\<forall>j<k. \<exists>m. sale_insert_error e j = Some m \<and> isDup m"
    and "sale_insert_error e k = None"
  shows "\<exists>p. p \<in> product_id ` set (parse_items (body_items b)) \<and> p \<notin> pid ` set (products w) \<and>
     res = (Response 500 (Error (''Missing price for product '' @ p)),
        w\<lparr>rng_calls := rng_calls w + Suc k,
          sales := sales w @ [row (genCode (math_random e (rng_calls w + k))) (next_sid (sales w)) (db_now e)]\<rparr>)"
proof -
  let ?items = "parse_items (body_items b)"
  let ?pm = "price_map (select_prices ?items w)"
  have loop: "res = sale_loop e row ?items ?pm 0 None w"
    by (rule create_reaches_loop [OF assms(1)])
  have none: "?pm (product_id it) = None"
    using assms(2,3) by (simp add: lookup_missing)
  from sale_loop_dups_then_missing [of k e it ?items ?pm row w] assms(2,4,5,6) none
  obtain p where p: "p \<in> product_id ` set ?items" "?pm p = None"
    "res = (Response 500 (Error (''Missing price for product '' @ p)),
        w\<lparr>rng_calls := rng_calls w + Suc k,
          sales := sales w @ [row (genCode (math_random e (rng_calls w + k))) (next_sid (sales w)) (db_now e)]\<rparr>)"
    unfolding loop by blast
  from p(1) obtain it' where "it' \<in> set ?items" "p = product_id it'" by blast
  with p(2) have "p \<notin> pid ` set (products w)"
    by (simp add: lookup_missing)
  with p show ?thesis by blast
qed

text \<open>
  Claim C4 as the specification states it fails: the request for the unknown product
  \<open>p9\<close> fails, and the table \<open>sales\<close>, empty before, holds a row afterwards.
\<close>

theorem missing_product_counterexample:
  "sales shop = []
   \<and> scan_create_POST calm ghost_cart shop =
      (Response 500 (Error ''Missing price for product p9''),
       shop\<lparr>sales := [scan_row ''CASH'' None ''550000'' 1 1000], rng_calls := 1\<rparr>)"
  by (simp add: create_evals)

text \<open>An instance: product \<open>p9\<close> is not in the shop.\<close>

theorem missing_product_leaves_sale_witness:
  "\<exists>p. p \<in> product_id ` set (parse_items (body_items ghost_cart)) \<and> p \<notin> pid ` set (products shop) \<and>
     scan_create_POST calm ghost_cart shop =
       (Response 500 (Error (''Missing price for product '' @ p)),
        shop\<lparr>rng_calls := rng_calls shop + Suc 0,
          sales := sales shop @ [scan_row (body_method ghost_cart) (body_reference ghost_cart)
            (genCode (math_random calm (rng_calls shop + 0))) (next_sid (sales shop)) (db_now calm)]\<rparr>)"
proof -
  have reach: "(scan_create_POST calm ghost_cart shop = scan_create_POST calm ghost_cart shop \<and>
       scan_row (body_method ghost_cart) (body_reference ghost_cart) = scan_row (body_method ghost_cart) (body_reference ghost_cart) \<and>
       parse_items (body_items ghost_cart) \<noteq> [] \<and> settings_error calm = None \<and>
       filter (\<lambda>s. setting_id s = 1) (shop_settings shop) = [\<lparr>setting_id = 1, enable_customer_scan = Some True\<rparr>] \<and>
       enable_customer_scan \<lparr>setting_id = 1, enable_customer_scan = Some True\<rparr> = Some True \<and>
       price_error calm = None)
    \<or> (scan_create_POST calm ghost_cart shop = pos_create_POST calm None ghost_cart shop \<and>
       scan_row (body_method ghost_cart) (body_reference ghost_cart) = pos_row (str_or [] None) (body_method ghost_cart) (body_reference ghost_cart) \<and>
       str_or [] None \<noteq> [] \<and> parse_items (body_items ghost_cart) \<noteq> [] \<and> price_error calm = None)"
    by (simp add: parse_items_def ghost_cart_def shop_def calm_def string_evals)
  have it: "\<lparr>product_id = ''p9'', qty = Num 1\<rparr> \<in> set (parse_items (body_items ghost_cart))"
    by (simp add: parse_items_def ghost_cart_def string_evals)
  have gone: "product_id \<lparr>product_id = ''p9'', qty = Num 1\<rparr> \<notin> pid ` set (products shop)"
    by (simp add: shop_def)
  have k: "(0::nat) < 6" "\<forall>j<(0::nat). \<exists>m. sale_insert_error calm j = Some m \<and> isDup m"
    "sale_insert_error calm 0 = None"
    by (simp_all add: calm_def)
  show ?thesis
    by (rule missing_product_leaves_sale [OF reach it gone k])
qed

section \<open>Line totals: claim C6\<close>







section \<open>The scan gate: claim C8\<close>

lemma sale_loop_settings:
  "sale_loop e row items pm attempt lastErr (w\<lparr>shop_settings := ss\<rparr>) =
     (fst (sale_loop e row items pm attempt lastErr w),
      (snd (sale_loop e row items pm attempt lastErr w))\<lparr>shop_settings := ss\<rparr>)"
proof (induction e row items pm attempt lastErr w rule: sale_loop.induct)
  case (1 e row items pm attempt lastErr w)
  show ?case
  proof (cases "attempt < 6")
    case False
    then show ?thesis by (simp add: sale_loop_exhausted)
  next
    case lt: True
    show ?thesis
    proof (cases "sale_insert_error e attempt")
      case None
      show ?thesis
        by (simp add: sale_loop_inserted [OF lt None] Let_def split: sum.splits option.splits)
    next
      case (Some m)
      show ?thesis
      proof (cases "isDup m")
        case False
        then show ?thesis by (simp add: sale_loop_abort [OF lt Some])
      next
        case True
        let ?w1 = "w\<lparr>rng_calls := Suc (rng_calls w)\<rparr>"
        have ins: "insert_sale (sale_insert_error e attempt) (db_now e)
            (row (genCode (math_random e (rng_calls w)))) ?w1 = Inl m"
          by (simp add: insert_sale_def Some)
        have swap: "w\<lparr>shop_settings := ss, rng_calls := Suc (rng_calls w)\<rparr> = ?w1\<lparr>shop_settings := ss\<rparr>"
          by (cases w) simp
        from "1.IH" [OF lt refl refl ins True] show ?thesis
          by (simp add: sale_loop_dup [OF lt Some True] swap)
      qed
    qed
  qed
qed

lemma select_prices_settings: "select_prices items (w\<lparr>shop_settings := ss\<rparr>) = select_prices items w"
  by (simp add: select_prices_def)

text \<open>
  Claim C8. A scan create request that passes the item validation is answered 403
  \<^verbatim>\<open>Scan checkout is turned off.\<close> with the state untouched whenever the settings row 1 is
  read without error and is absent or has a flag other than \<open>true\<close>. The POS create
  route never reads \<open>shop_settings\<close>: replacing that table by any other changes neither
  its response nor what it writes.
\<close>

theorem scan_gate:
  "(parse_items (body_items b) \<noteq> [] \<and> settings_error e = None \<and>
      (filter (\<lambda>s. setting_id s = 1) (shop_settings w) = []
       \<or> (\<exists>st. filter (\<lambda>s. setting_id s = 1) (shop_settings w) = [st] \<and>
                enable_customer_scan st \<noteq> Some True)) \<longrightarrow>
      scan_create_POST e b w = (Response 403 (Error ''Scan checkout is turned off.''), w))
   \<and> pos_create_POST e uid b (w\<lparr>shop_settings := ss\<rparr>) =
       (fst (pos_create_POST e uid b w), (snd (pos_create_POST e uid b w))\<lparr>shop_settings := ss\<rparr>)"
proof (intro conjI impI)
  assume "parse_items (body_items b) \<noteq> [] \<and> settings_error e = None \<and>
      (filter (\<lambda>s. setting_id s = 1) (shop_settings w) = []
       \<or> (\<exists>st. filter (\<lambda>s. setting_id s = 1) (shop_settings w) = [st] \<and>
                enable_customer_scan st \<noteq> Some True))"
  then show "scan_create_POST e b w = (Response 403 (Error ''Scan checkout is turned off.''), w)"
    by (auto simp: scan_create_POST_def maybeSingle_def scan_enabled_def Let_def)
next
  show "pos_create_POST e uid b (w\<lparr>shop_settings := ss\<rparr>) =
       (fst (pos_create_POST e uid b w), (snd (pos_create_POST e uid b w))\<lparr>shop_settings := ss\<rparr>)"
    by (simp add: pos_create_POST_def Let_def select_prices_settings sale_loop_settings
        split: option.splits)
qed

lemma pos_create_example:
  "pos_create_POST calm (Some ''u1'') cart shop = (Response 200 (OkCode ''550000''), till)"
  by (simp add: create_evals till_def)

text \<open>An instance: with the flag off the scan route refuses and the POS route sells.\<close>

theorem scan_gate_witness:
  "scan_create_POST calm cart closed_shop =
     (Response 403 (Error ''Scan checkout is turned off.''), closed_shop)
   \<and> pos_create_POST calm (Some ''u1'') cart closed_shop =
     (Response 200 (OkCode ''550000''),
      till\<lparr>shop_settings := [\<lparr>setting_id = 1, enable_customer_scan = Some False\<rparr>]\<rparr>)"
proof -
  have off: "parse_items (body_items cart) \<noteq> [] \<and> settings_error calm = None \<and>
      (filter (\<lambda>s. setting_id s = 1) (shop_settings closed_shop) = []
       \<or> (\<exists>st. filter (\<lambda>s. setting_id s = 1) (shop_settings closed_shop) = [st] \<and>
                enable_customer_scan st \<noteq> Some True))"
    by (simp add: parse_items_def cart_def closed_shop_def shop_def calm_def string_evals)
  note gate = scan_gate [of cart calm closed_shop "Some ''u1''" "[\<lparr>setting_id = 1, enable_customer_scan = Some False\<rparr>]"]
  note pos = scan_gate [of cart calm shop "Some ''u1''" "[\<lparr>setting_id = 1, enable_customer_scan = Some False\<rparr>]", THEN conjunct2]
  from gate [THEN conjunct1, THEN mp, OF off] pos show ?thesis
    by (simp add: pos_create_example closed_shop_def)
qed

section \<open>The effect of a confirmation: claim C5\<close>

lemma update_by_id:
  assumes "distinct (map sid xs)" "i < length xs"
  shows "map (\<lambda>x. if sid x = sid (xs ! i) then f x else x) xs = xs[i := f (xs ! i)]"
proof (rule nth_equalityI)
  show "length (map (\<lambda>x. if sid x = sid (xs ! i) then f x else x) xs) = length (xs[i := f (xs ! i)])"
    by simp
next
  fix j
  assume "j < length (map (\<lambda>x. if sid x = sid (xs ! i) then f x else x) xs)"
  then have j: "j < length xs" by simp
  have "(sid (xs ! j) = sid (xs ! i)) = (j = i)"
    using assms j nth_eq_iff_index_eq [of "map sid xs" j i] by simp
  with j show "map (\<lambda>x. if sid x = sid (xs ! i) then f x else x) xs ! j = xs[i := f (xs ! i)] ! j"
    by (auto simp: nth_list_update)
qed

lemma filter_single_nth:
  "filter P xs = [s] \<Longrightarrow> \<exists>i<length xs. xs ! i = s \<and> P s"
proof -
  assume a: "filter P xs = [s]"
  then have "s \<in> set (filter P xs)" by simp
  then have "s \<in> set xs" "P s" by simp_all
  then show ?thesis by (auto simp: in_set_conv_nth)
qed

lemma scan_confirm_ok:
  assumes "scan_confirm_POST e uid code w = (Response 200 Ok, w')"
  shows "\<exists>s. str_or [] uid \<noteq> [] \<and> trim (str_or [] code) \<noteq> [] \<and>
     filter (\<lambda>x. public_code x = trim (str_or [] code)) (sales w) = [s] \<and>
     source s = ''CUSTOMER_SCAN'' \<and>
     w' = update_sales (\<lambda>x. sid x = sid s)
            (\<lambda>x. x\<lparr>status := ''PAID'', payment_status := ''CONFIRMED'', staff_id := Some (str_or [] uid)\<rparr>) w"
  using assms
  by (auto simp: scan_confirm_POST_def Let_def maybeSingle_def
      split: if_splits option.splits sum.splits list.splits)

lemma scan_confirm_not_found:
  assumes "str_or [] uid \<noteq> []" "trim (str_or [] code) \<noteq> []" "select_error e = None"
    "\<forall>s\<in>set (sales w). public_code s \<noteq> trim (str_or [] code)"
  shows "scan_confirm_POST e uid code w = (Response 404 (Error ''Code not found.''), w)"
proof -
  from assms(4) have "filter (\<lambda>s. public_code s = trim (str_or [] code)) (sales w) = []"
    by (simp add: filter_empty_conv)
  with assms(1,2,3) show ?thesis
    by (simp add: scan_confirm_POST_def Let_def maybeSingle_def)
qed

text \<open>
  Claim C5. Let the ids of \<open>sales\<close> be distinct (\<^verbatim>\<open>id\<close> is the key the route updates by).
  When \<^verbatim>\<open>POST /api/scan/confirm\<close> answers 200, the caller is signed in as some \<open>u\<close> and the
  new state is the old one with exactly one row of \<open>sales\<close>, a row carrying the code,
  changed in \<open>status\<close>, \<open>payment_status\<close> and \<open>staff_id\<close> to \<open>PAID\<close>, \<open>CONFIRMED\<close> and
  \<open>u\<close>: every other field of that row, every other sale, and the tables \<open>sale_items\<close>,
  \<open>products\<close> and \<open>shop_settings\<close> are as before. When a signed-in caller gives a
  non-empty code that no row carries and the read is answered, the route answers 404
  \<^verbatim>\<open>Code not found.\<close> and changes nothing.
\<close>

theorem confirm_frame:
  assumes "distinct (map sid (sales w))"
  shows "(scan_confirm_POST e uid code w = (Response 200 Ok, w') \<longrightarrow>
       (\<exists>u i. uid = Some u \<and> u \<noteq> [] \<and> i < length (sales w) \<and>
          public_code (sales w ! i) = trim (str_or [] code) \<and>
          w' = w\<lparr>sales := (sales w)[i := (sales w ! i)\<lparr>status := ''PAID'',
                  payment_status := ''CONFIRMED'', staff_id := Some u\<rparr>]\<rparr>))
    \<and> (str_or [] uid \<noteq> [] \<and> trim (str_or [] code) \<noteq> [] \<and> select_error e = None \<and>
        (\<forall>s\<in>set (sales w). public_code s \<noteq> trim (str_or [] code)) \<longrightarrow>
        scan_confirm_POST e uid code w = (Response 404 (Error ''Code not found.''), w))"
proof (intro conjI impI)
  assume "scan_confirm_POST e uid code w = (Response 200 Ok, w')"
  from scan_confirm_ok [OF this] obtain s where
    u: "str_or [] uid \<noteq> []" and
    f: "filter (\<lambda>x. public_code x = trim (str_or [] code)) (sales w) = [s]" and
    w': "w' = update_sales (\<lambda>x. sid x = sid s)
            (\<lambda>x. x\<lparr>status := ''PAID'', payment_status := ''CONFIRMED'', staff_id := Some (str_or [] uid)\<rparr>) w"
    by blast
  from u obtain v where v: "uid = Some v" "v \<noteq> []" "str_or [] uid = v"
    by (cases uid) (auto simp: str_or_def split: if_splits)
  from filter_single_nth [OF f] obtain i where
    i: "i < length (sales w)" "sales w ! i = s" "public_code s = trim (str_or [] code)"
    by blast
  have "w' = w\<lparr>sales := (sales w)[i := (sales w ! i)\<lparr>status := ''PAID'',
                  payment_status := ''CONFIRMED'', staff_id := Some v\<rparr>]\<rparr>"
    using update_by_id [OF assms i(1), of "\<lambda>x. x\<lparr>status := ''PAID'',
        payment_status := ''CONFIRMED'', staff_id := Some v\<rparr>"] i(2) v(3)
    by (simp add: w' update_sales_def)
  with v i show "\<exists>u i. uid = Some u \<and> u \<noteq> [] \<and> i < length (sales w) \<and>
          public_code (sales w ! i) = trim (str_or [] code) \<and>
          w' = w\<lparr>sales := (sales w)[i := (sales w ! i)\<lparr>status := ''PAID'',
                  payment_status := ''CONFIRMED'', staff_id := Some u\<rparr>]\<rparr>"
    by blast
next
  assume "str_or [] uid \<noteq> [] \<and> trim (str_or [] code) \<noteq> [] \<and> select_error e = None \<and>
        (\<forall>s\<in>set (sales w). public_code s \<noteq> trim (str_or [] code))"
  then show "scan_confirm_POST e uid code w = (Response 404 (Error ''Code not found.''), w)"
    by (intro scan_confirm_not_found) simp_all
qed

text \<open>An instance: confirming the pending sale, and asking for an unknown code.\<close>

theorem confirm_frame_witness:
  "scan_confirm_POST calm (Some ''u1'') (Some '' 550000 '') sold =
     (Response 200 Ok,
      sold\<lparr>sales := [(scan_row ''CASH'' None ''550000'' 1 1000)\<lparr>status := ''PAID'',
                 payment_status := ''CONFIRMED'', staff_id := Some ''u1''\<rparr>]\<rparr>)
   \<and> scan_confirm_POST calm (Some ''u1'') (Some ''123456'') sold =
     (Response 404 (Error ''Code not found.''), sold)"
proof -
  have d: "distinct (map sid (sales sold))"
    by (simp add: sold_def)
  have ok: "scan_confirm_POST calm (Some ''u1'') (Some '' 550000 '') sold =
     (Response 200 Ok,
      sold\<lparr>sales := [(scan_row ''CASH'' None ''550000'' 1 1000)\<lparr>status := ''PAID'',
                 payment_status := ''CONFIRMED'', staff_id := Some ''u1''\<rparr>]\<rparr>)"
    by (simp add: confirm_evals)
  have nf: "str_or [] (Some ''u1'') \<noteq> [] \<and> trim (str_or [] (Some ''123456'')) \<noteq> [] \<and>
        select_error calm = None \<and>
        (\<forall>s\<in>set (sales sold). public_code s \<noteq> trim (str_or [] (Some ''123456'')))"
    by (simp add: confirm_evals)
  from confirm_frame [OF d, of calm "Some ''u1''" "Some '' 550000 ''", THEN conjunct1, THEN mp, OF ok]
  have "\<exists>u i. Some ''u1'' = Some u \<and> u \<noteq> [] \<and> i < length (sales sold) \<and>
      public_code (sales sold ! i) = trim (str_or [] (Some '' 550000 ''))"
    by blast
  with confirm_frame [OF d, of calm "Some ''u1''" "Some ''123456''", THEN conjunct2, THEN mp, OF nf] ok
  show ?thesis by simp
qed

section \<open>Confirming twice: claim C1\<close>

lemma toUpperCase_PAID: "toUpperCase ''PAID'' = ''PAID''"
  by (simp add: string_evals)

lemma toUpperCase_CONFIRMED: "toUpperCase ''CONFIRMED'' = ''CONFIRMED''"
  by (simp add: string_evals)

lemma scan_confirm_already_used:
  assumes "str_or [] uid \<noteq> []" "trim (str_or [] code) \<noteq> []" "select_error e = None"
    "filter (\<lambda>s. public_code s = trim (str_or [] code)) (sales w) = [s]"
    "source s = ''CUSTOMER_SCAN''"
    "toUpperCase (status s) = ''PAID'' \<or> toUpperCase (payment_status s) = ''CONFIRMED''"
  shows "scan_confirm_POST e uid code w =
    (Response 409 (Error ''This code has already been used.''), w)"
  using assms by (simp add: scan_confirm_POST_def Let_def maybeSingle_def)

lemma scan_confirm_second_rejected:
  assumes first: "scan_confirm_POST e uid code w = (Response 200 Ok, w')"
    and "str_or [] uid' \<noteq> []" "select_error e' = None"
    "trim (str_or [] code') = trim (str_or [] code)"
  shows "scan_confirm_POST e' uid' code' w' =
    (Response 409 (Error ''This code has already been used.''), w')"
proof -
  let ?c = "trim (str_or [] code)"
  let ?f = "\<lambda>x. x\<lparr>status := ''PAID'', payment_status := ''CONFIRMED'', staff_id := Some (str_or [] uid)\<rparr>"
  from scan_confirm_ok [OF first] obtain s where
    c: "?c \<noteq> []" and
    f: "filter (\<lambda>x. public_code x = ?c) (sales w) = [s]" and
    src: "source s = ''CUSTOMER_SCAN''" and
    w': "w' = update_sales (\<lambda>x. sid x = sid s) ?f w"
    by blast
  let ?g = "\<lambda>x. if sid x = sid s then ?f x else x"
  have "filter (\<lambda>x. public_code x = ?c) (map ?g (sales w)) =
        map ?g (filter (\<lambda>x. public_code x = ?c) (sales w))"
    by (induction "sales w") (simp_all add: filter_map o_def cong: filter_cong)
  then have "filter (\<lambda>x. public_code x = ?c) (sales w') = [?f s]"
    by (simp add: w' update_sales_def f)
  then show ?thesis
    using assms(2,3,4) c src
    by (intro scan_confirm_already_used [where s = "?f s"]) (simp_all add: toUpperCase_PAID)
qed

text \<open>
  Claim C1. \<^verbatim>\<open>POST /api/scan/confirm\<close> keeps the property: a scan sale that is \<open>PAID\<close> or
  \<open>CONFIRMED\<close> is answered 409 (\<open>scan_confirm_already_used\<close>), and after one success every
  further confirmation of the code is answered 409 (\<open>scan_confirm_second_rejected\<close>).
  \<^verbatim>\<open>POST /api/pos/confirm-scan\<close> has no such guard. On the pending sale \<open>550000\<close> a first
  call by \<open>u1\<close> succeeds; a second call by \<open>u2\<close> on the sale, now \<open>PAID\<close>, succeeds again
  and overwrites \<open>staff_id\<close>; the guarded route answers 409 in the same state.
\<close>

theorem pos_confirm_scan_repeats:
  "pos_confirm_scan_POST calm (Some ''u1'') (Some ''550000'') sold =
     (Response 200 (OkSale 1 ''550000''),
      sold\<lparr>sales := [(scan_row ''CASH'' None ''550000'' 1 1000)\<lparr>status := ''PAID'',
                 payment_status := ''confirmed'', staff_id := Some ''u1''\<rparr>]\<rparr>)
   \<and> pos_confirm_scan_POST calm (Some ''u2'') (Some ''550000'')
       (sold\<lparr>sales := [(scan_row ''CASH'' None ''550000'' 1 1000)\<lparr>status := ''PAID'',
                 payment_status := ''confirmed'', staff_id := Some ''u1''\<rparr>]\<rparr>) =
     (Response 200 (OkSale 1 ''550000''),
      sold\<lparr>sales := [(scan_row ''CASH'' None ''550000'' 1 1000)\<lparr>status := ''PAID'',
                 payment_status := ''confirmed'', staff_id := Some ''u2''\<rparr>]\<rparr>)
   \<and> scan_confirm_POST calm (Some ''u2'') (Some ''550000'')
       (sold\<lparr>sales := [(scan_row ''CASH'' None ''550000'' 1 1000)\<lparr>status := ''PAID'',
                 payment_status := ''confirmed'', staff_id := Some ''u1''\<rparr>]\<rparr>) =
     (Response 409 (Error ''This code has already been used.''),
      sold\<lparr>sales := [(scan_row ''CASH'' None ''550000'' 1 1000)\<lparr>status := ''PAID'',
                 payment_status := ''confirmed'', staff_id := Some ''u1''\<rparr>]\<rparr>)"
  by (simp add: confirm_evals)

section \<open>The lookup: claims C7 and C10\<close>

lemma str_or_Some: "str_or [] (Some s) = s"
  by (simp add: str_or_def)

lemma scan_lookup_read_only: "snd (scan_lookup_GET e param w) = w"
  by (simp add: scan_lookup_GET_def Let_def split: sum.splits option.splits)

lemma scan_lookup_found:
  assumes "fst (scan_lookup_GET e param w) = Response 200 (OkLookup c ps st p s its)"
  shows "filter (\<lambda>x. public_code x = trim (str_or [] param)) (sales w) = [s] \<and>
    source s = ''CUSTOMER_SCAN'' \<and> c = public_code s \<and> ps = payment_status s \<and> st = status s \<and>
    p = (toUpperCase (payment_status s) = ''CONFIRMED'' \<or> toUpperCase (status s) = ''PAID'') \<and>
    its = filter (\<lambda>it. sale_id it = sid s) (sale_items w)"
  using assms
  by (auto simp: scan_lookup_GET_def Let_def maybeSingle_def str_or_Some
      split: if_splits option.splits sum.splits list.splits)

text \<open>
  Claim C7. The lookup never changes the state. Whenever it answers 200, the sale in the
  answer is the one row carrying the code, and the flag \<open>paid\<close> is
  \<open>payment_status = CONFIRMED or status = PAID\<close>, both compared in upper case; every
  scan sale that is the one row with a code of at least four characters is found this
  way when the read is answered, and for the enum values of the data model the flag is
  the disjunction of the two plain equalities.
\<close>

theorem lookup_paid:
  "snd (scan_lookup_GET e param w) = w
   \<and> (fst (scan_lookup_GET e param w) = Response 200 (OkLookup c ps st p s its) \<longrightarrow>
        filter (\<lambda>x. public_code x = trim (str_or [] param)) (sales w) = [s] \<and>
        c = public_code s \<and> ps = payment_status s \<and> st = status s \<and>
        its = filter (\<lambda>it. sale_id it = sid s) (sale_items w) \<and>
        p = (toUpperCase (payment_status s) = ''CONFIRMED'' \<or> toUpperCase (status s) = ''PAID''))
   \<and> (4 \<le> length (trim (str_or [] param)) \<and> select_error e = None \<and>
      filter (\<lambda>x. public_code x = trim (str_or [] param)) (sales w) = [s] \<and>
      source s = ''CUSTOMER_SCAN'' \<longrightarrow>
        scan_lookup_GET e param w =
          (Response 200 (OkLookup (public_code s) (payment_status s) (status s)
             (toUpperCase (payment_status s) = ''CONFIRMED'' \<or> toUpperCase (status s) = ''PAID'')
             s (filter (\<lambda>it. sale_id it = sid s) (sale_items w))), w)
        \<and> (payment_status s \<in> {''PENDING'', ''CONFIRMED''} \<and>
           status s \<in> {''PENDING'', ''PAID'', ''CANCELLED''} \<longrightarrow>
           paid (json (fst (scan_lookup_GET e param w))) =
             (payment_status s = ''CONFIRMED'' \<or> status s = ''PAID'')))"
proof (intro conjI impI)
  show "snd (scan_lookup_GET e param w) = w"
    by (rule scan_lookup_read_only)
next
  assume "fst (scan_lookup_GET e param w) = Response 200 (OkLookup c ps st p s its)"
  from scan_lookup_found [OF this]
  show "filter (\<lambda>x. public_code x = trim (str_or [] param)) (sales w) = [s]"
    "c = public_code s" "ps = payment_status s" "st = status s"
    "its = filter (\<lambda>it. sale_id it = sid s) (sale_items w)"
    "p = (toUpperCase (payment_status s) = ''CONFIRMED'' \<or> toUpperCase (status s) = ''PAID'')"
    by simp_all
next
  assume a: "4 \<le> length (trim (str_or [] param)) \<and> select_error e = None \<and>
      filter (\<lambda>x. public_code x = trim (str_or [] param)) (sales w) = [s] \<and>
      source s = ''CUSTOMER_SCAN''"
  then have ne: "trim (str_or [] param) \<noteq> []" by auto
  from a ne show run: "scan_lookup_GET e param w =
          (Response 200 (OkLookup (public_code s) (payment_status s) (status s)
             (toUpperCase (payment_status s) = ''CONFIRMED'' \<or> toUpperCase (status s) = ''PAID'')
             s (filter (\<lambda>it. sale_id it = sid s) (sale_items w))), w)"
    by (simp add: scan_lookup_GET_def Let_def maybeSingle_def str_or_Some)
  assume "payment_status s \<in> {''PENDING'', ''CONFIRMED''} \<and>
           status s \<in> {''PENDING'', ''PAID'', ''CANCELLED''}"
  then show "paid (json (fst (scan_lookup_GET e param w))) =
             (payment_status s = ''CONFIRMED'' \<or> status s = ''PAID'')"
    unfolding run by (auto simp: string_evals)
qed

text \<open>An instance: the pending sale is found, not paid, with a total of 20.\<close>

theorem lookup_paid_witness:
  "scan_lookup_GET calm (Some ''550000'') sold =
     (Response 200 (OkLookup ''550000'' ''PENDING'' ''PENDING'' False
        (scan_row ''CASH'' None ''550000'' 1 1000)
        [\<lparr>product_id = ''p1'', qty = Num 2, sale_id = 1,
           unit_price_at_time = Num 10, line_total = Num 20\<rparr>]), sold)
   \<and> scanTotal [\<lparr>product_id = ''p1'', qty = Num 2, sale_id = 1,
           unit_price_at_time = Num 10, line_total = Num 20\<rparr>] = Num 20"
proof -
  have found: "4 \<le> length (trim (str_or [] (Some ''550000''))) \<and> select_error calm = None \<and>
      filter (\<lambda>x. public_code x = trim (str_or [] (Some ''550000''))) (sales sold)
        = [scan_row ''CASH'' None ''550000'' 1 1000] \<and>
      source (scan_row ''CASH'' None ''550000'' 1 1000) = ''CUSTOMER_SCAN''"
    by (simp add: confirm_evals)
  from lookup_paid [of calm "Some ''550000''" sold, THEN conjunct2, THEN conjunct2, THEN mp,
      OF found, THEN conjunct1]
  show ?thesis
    by (simp add: scan_row_def sold_def shop_def string_evals scanTotal_def)
qed

text \<open>
  Claim C10. When the one row carrying the code is not a scan sale, the lookup answers
  400 \<^verbatim>\<open>This code is not a scan checkout.\<close> and returns neither the sale nor its items.
\<close>

theorem lookup_scan_only:
  assumes "4 \<le> length (trim (str_or [] param))" and "select_error e = None"
    and "filter (\<lambda>x. public_code x = trim (str_or [] param)) (sales w) = [s]"
    and "source s \<noteq> ''CUSTOMER_SCAN''"
  shows "scan_lookup_GET e param w = (Response 400 (Error ''This code is not a scan checkout.''), w)"
proof -
  from assms(1) have "trim (str_or [] param) \<noteq> []" by auto
  with assms show ?thesis
    by (simp add: scan_lookup_GET_def Let_def maybeSingle_def)
qed

text \<open>An instance: the code of a manual POS sale.\<close>

theorem lookup_scan_only_witness:
  "source (pos_row ''u1'' ''CASH'' None ''550000'' 1 1000) = ''STAFF_MANUAL'' \<and>
   scan_lookup_GET calm (Some ''550000'') till =
     (Response 400 (Error ''This code is not a scan checkout.''), till)"
proof -
  have len: "4 \<le> length (trim (str_or [] (Some ''550000'')))"
    by (simp add: string_evals)
  have sel: "select_error calm = None"
    by (simp add: calm_def)
  have row: "filter (\<lambda>x. public_code x = trim (str_or [] (Some ''550000''))) (sales till)
       = [pos_row ''u1'' ''CASH'' None ''550000'' 1 1000]"
    by (simp add: confirm_evals)
  have src: "source (pos_row ''u1'' ''CASH'' None ''550000'' 1 1000) \<noteq> ''CUSTOMER_SCAN''"
    by (simp add: pos_row_def)
  from lookup_scan_only [OF len sel row src] show ?thesis
    by (simp add: pos_row_def)
qed

end
